theory Spec2Isabelle
  imports Complex_Main "HOL-Library.Word" "HOL-Library.Sublist"
begin

section \<open>Bias-SGD vertex program of \<^verbatim>\<open>toolkits/collaborative_filtering/biassgd.cpp\<close>\<close>

text \<open>
  Number model. A finite \<^verbatim>\<open>double\<close> or \<^verbatim>\<open>float\<close> of the program is the
  \<^typ>\<open>real\<close> it stands for. Two operations round as IEEE 754 does, to the nearest
  representable value with ties to the even significand: the narrowing of \<^verbatim>\<open>err\<close> to
  \<^verbatim>\<open>float\<close> in \<^verbatim>\<open>gather\<close> and the \<^verbatim>\<open>double\<close> additions of
  \<^verbatim>\<open>gather_type::operator+=\<close>; where their result is an infinity the source goes on
  computing with it, and the model stops with \<open>Not_Finite\<close>. The other \<^verbatim>\<open>double\<close>
  operations are taken without rounding. A not-a-number can come from \<^verbatim>\<open>std::sqrt\<close>
  of a negative argument, which is written out; the narrowing of a finite value never
  gives one, so the branch of \<^verbatim>\<open>assert(!std::isnan(err))\<close> is there and is never taken
  on finite vertex and edge data. \<^verbatim>\<open>uint32_t\<close> is \<^typ>\<open>32 word\<close>, \<^verbatim>\<open>size_t\<close> is
  \<^typ>\<open>64 word\<close>, and the global \<^verbatim>\<open>int iter\<close> is an \<^typ>\<open>int\<close> (its overflow is
  undefined behaviour in the source). An \<^verbatim>\<open>Eigen::VectorXd\<close> is a list of reals;
  Eigen checks that the operands of \<^verbatim>\<open>dot\<close>, \<^verbatim>\<open>+\<close>, \<^verbatim>\<open>-\<close> and \<^verbatim>\<open>+=\<close> have
  the same size, and a failed check, like a failed \<^verbatim>\<open>assert\<close>, ends the process.
  Debug printing is left out.
\<close>

subsection \<open>Data\<close>

datatype fatal = Assertion_Failed | Eigen_Size_Mismatch | Not_Finite

text \<open>
  Rounding to the nearest value with a significand of \<open>p\<close> bits and an exponent of at
  least \<open>emin\<close> (below \<open>2 ^ emin\<close> the values are the subnormal ones), ties to even.
\<close>

definition round_even :: "real \<Rightarrow> int" where
  "round_even r =
     (let f = \<lfloor>r\<rfloor> in
      if r - of_int f < 1 / 2 then f
      else if 1 / 2 < r - of_int f then f + 1
      else if even f then f else f + 1)"

definition round_to :: "nat \<Rightarrow> int \<Rightarrow> real \<Rightarrow> real" where
  "round_to p emin x =
     (if x = 0 then 0
      else let e = max \<lfloor>log 2 \<bar>x\<bar>\<rfloor> emin;
               u = 2 powr (of_int e - of_nat p + 1)
           in of_int (round_even (x / u)) * u)"

datatype fp_value = Fp real | Fp_Inf | Fp_NaN

text \<open>The conversion of a \<^verbatim>\<open>double\<close> to \<^verbatim>\<open>float\<close> (binary32).\<close>

definition to_float :: "real \<Rightarrow> fp_value" where
  "to_float x =
     (let r = round_to 24 (- 126) x in if \<bar>r\<bar> < 2 ^ 128 then Fp r else Fp_Inf)"



type_synonym vec_type = "real list"

definition dot :: "vec_type \<Rightarrow> vec_type \<Rightarrow> real" where
  "dot xs ys = sum_list (map2 (*) xs ys)"

definition vec_plus :: "vec_type \<Rightarrow> vec_type \<Rightarrow> vec_type" where
  "vec_plus xs ys = map2 (+) xs ys"

definition vec_minus :: "vec_type \<Rightarrow> vec_type \<Rightarrow> vec_type" where
  "vec_minus xs ys = map2 (-) xs ys"

definition scale :: "real \<Rightarrow> vec_type \<Rightarrow> vec_type" where
  "scale c xs = map ((*) c) xs"


record vertex_data =
  nupdates :: "32 word"
  pvec :: vec_type
  weight :: vec_type
  bias :: real


datatype data_role_type = TRAIN | VALIDATE | PREDICT

record edge_data =
  obs :: real
  role :: data_role_type

text \<open>
  A \<^verbatim>\<open>vertex_type\<close> is a handle into the graph: here the vertex id, with the graph
  as the store the handle reads and writes. Two handles of one vertex share its data, as
  they do in the source.
\<close>

record 'v graph_type =
  vertex_data_of :: "'v \<Rightarrow> vertex_data"
  num_in_edges :: "'v \<Rightarrow> nat"
  num_out_edges :: "'v \<Rightarrow> nat"

record 'v edge_type =
  source :: 'v
  target :: 'v
  data :: edge_data

record gather_type =
  pvec :: vec_type
  bias :: real

text \<open>The statics of \<^verbatim>\<open>biassgd_vertex_program\<close> and \<^verbatim>\<open>vertex_data\<close>, and the globals.\<close>

record globals =
  NLATENT :: nat
  LAMBDA :: real
  GAMMA :: real
  MAXVAL :: real
  MINVAL :: real
  STEP_DEC :: real
  MAX_UPDATES :: "64 word"
  GLOBAL_MEAN :: real
  iter :: int
  REMAP_TARGET :: bool

record biassgd_vertex_program =
  pmsg :: gather_type

text \<open>What \<^verbatim>\<open>context.signal\<close> was called with, in call order.\<close>

type_synonym 'v signals = "('v \<times> gather_type) list"

subsection \<open>The accumulator\<close>

definition get_other_vertex :: "'v edge_type \<Rightarrow> 'v \<Rightarrow> 'v" where
  "get_other_vertex edge vertex = (if vertex = source edge then target edge else source edge)"

definition gather_type_ctor :: "vec_type \<Rightarrow> real \<Rightarrow> gather_type" where
  "gather_type_ctor X b = \<lparr>gather_type.pvec = X, gather_type.bias = b\<rparr>"






subsection \<open>The vertex program\<close>

definition update_vertex ::
  "'v graph_type \<Rightarrow> 'v \<Rightarrow> (vertex_data \<Rightarrow> vertex_data) \<Rightarrow> 'v graph_type" where
  "update_vertex G v f = G\<lparr>vertex_data_of := (vertex_data_of G)(v := f (vertex_data_of G v))\<rparr>"

text \<open>
  \<^verbatim>\<open>gather\<close>: the returned accumulator, the graph with the cached vertex data as the
  call leaves them, and the signals sent. The one size check stands for Eigen's checks
  in \<^verbatim>\<open>dot\<close>, \<^verbatim>\<open>-\<close> and \<^verbatim>\<open>+=\<close>, whose operands all have the size of one of the
  two \<^verbatim>\<open>pvec\<close>s. \<^verbatim>\<open>err\<close> is a \<^verbatim>\<open>const float\<close>: the difference is narrowed.
\<close>

definition gather ::
  "globals \<Rightarrow> 'v graph_type \<Rightarrow> 'v \<Rightarrow> 'v edge_type
     \<Rightarrow> fatal + (gather_type \<times> 'v graph_type \<times> 'v signals)" where
  "gather g G vertex edge =
     (let delta = ([] :: vec_type); other_delta = ([] :: vec_type);
          bias0 = (0 :: real); other_bias0 = (0 :: real) in
      if num_in_edges G vertex = 0 then
        let other_vertex = get_other_vertex edge vertex;
            my_vertex = vertex;
            my_pvec = vertex_data.pvec (vertex_data_of G vertex);
            other_pvec = vertex_data.pvec (vertex_data_of G other_vertex)
        in
        if length my_pvec \<noteq> length other_pvec then Inl Eigen_Size_Mismatch
        else
          let pred0 = GLOBAL_MEAN g
                + vertex_data.bias (vertex_data_of G (source edge))
                + vertex_data.bias (vertex_data_of G (target edge))
                + dot my_pvec other_pvec;
              pred1 = min pred0 (MAXVAL g);
              pred = max pred1 (MINVAL g);
              err0 = to_float (pred - obs (data edge))
          in
          (case err0 of
             Fp_NaN \<Rightarrow> Inl Assertion_Failed
           | Fp_Inf \<Rightarrow>
               if role (data edge) = TRAIN then Inl Not_Finite
               else Inr (gather_type_ctor delta bias0, G, [])
           | Fp err \<Rightarrow>
          if role (data edge) = TRAIN then
            let bias1 = - GAMMA g * (err - LAMBDA g * bias0);
                other_bias1 = - GAMMA g * (err - LAMBDA g * other_bias0);
                delta1 = scale (- GAMMA g)
                  (vec_minus (scale err other_pvec) (scale (LAMBDA g) my_pvec));
                other_delta1 = scale (- GAMMA g)
                  (vec_minus (scale err my_pvec) (scale (LAMBDA g) other_pvec));
                G1 = update_vertex G my_vertex
                  (\<lambda>d. d\<lparr>vertex_data.bias := vertex_data.bias d + bias1\<rparr>);
                G2 = update_vertex G1 other_vertex
                  (\<lambda>d. d\<lparr>vertex_data.bias := vertex_data.bias d + other_bias1\<rparr>);
                G3 = update_vertex G2 my_vertex
                  (\<lambda>d. d\<lparr>vertex_data.pvec := vec_plus (vertex_data.pvec d) delta1\<rparr>);
                G4 = update_vertex G3 other_vertex
                  (\<lambda>d. d\<lparr>vertex_data.pvec := vec_plus (vertex_data.pvec d) other_delta1\<rparr>)
            in
            Inr (gather_type_ctor delta1 bias1, G4,
                 if ucast (nupdates (vertex_data_of G4 other_vertex)) < MAX_UPDATES g
                 then [(other_vertex, gather_type_ctor other_delta1 other_bias1)] else [])
          else Inr (gather_type_ctor delta bias0, G, []))
      else Inr (gather_type_ctor delta bias0, G, []))"

definition init ::
  "biassgd_vertex_program \<Rightarrow> 'v graph_type \<Rightarrow> 'v \<Rightarrow> gather_type \<Rightarrow> biassgd_vertex_program" where
  "init prog G vertex msg = (if num_in_edges G vertex > 0 then prog\<lparr>pmsg := msg\<rparr> else prog)"

text \<open>
  \<^verbatim>\<open>apply\<close> (named \<open>apply_fn\<close>: \<open>apply\<close> is a keyword here). It writes the vertex
  data only; \<^verbatim>\<open>pmsg\<close> is read.
\<close>

definition apply_fn ::
  "biassgd_vertex_program \<Rightarrow> 'v graph_type \<Rightarrow> 'v \<Rightarrow> gather_type \<Rightarrow> fatal + 'v graph_type" where
  "apply_fn prog G vertex sum_acc =
     (let vdata = vertex_data_of G vertex in
      if length (gather_type.pvec sum_acc) > 0 then
        if length (vertex_data.pvec vdata) \<noteq> length (gather_type.pvec sum_acc) then
          Inl Eigen_Size_Mismatch
        else if num_in_edges G vertex \<noteq> 0 then Inl Assertion_Failed
        else
          Inr (update_vertex G vertex (\<lambda>d. d
            \<lparr>vertex_data.pvec := vec_plus (vertex_data.pvec d) (gather_type.pvec sum_acc),
             nupdates := nupdates d + 1\<rparr>))
      else if length (gather_type.pvec (pmsg prog)) > 0 then
        if length (vertex_data.pvec vdata) \<noteq> length (gather_type.pvec (pmsg prog)) then
          Inl Eigen_Size_Mismatch
        else if num_out_edges G vertex \<noteq> 0 then Inl Assertion_Failed
        else
          Inr (update_vertex G vertex (\<lambda>d. d
            \<lparr>vertex_data.pvec := vec_plus (vertex_data.pvec d) (gather_type.pvec (pmsg prog)),
             vertex_data.bias := vertex_data.bias d + gather_type.bias (pmsg prog),
             nupdates := nupdates d + 1\<rparr>))
      else Inr (update_vertex G vertex (\<lambda>d. d\<lparr>nupdates := nupdates d + 1\<rparr>)))"



text \<open>Applying \<^verbatim>\<open>apply\<close> to one vertex with one accumulator after the other.\<close>

fun apply_all ::
  "biassgd_vertex_program \<Rightarrow> 'v graph_type \<Rightarrow> 'v \<Rightarrow> gather_type list \<Rightarrow> fatal + 'v graph_type" where
  "apply_all prog G vertex [] = Inr G"
| "apply_all prog G vertex (acc # rest) =
     (case apply_fn prog G vertex acc of
        Inl f \<Rightarrow> Inl f
      | Inr G' \<Rightarrow> apply_all prog G' vertex rest)"

subsection \<open>The error aggregator\<close>

record error_aggregator =
  train_error :: real
  validation_error :: real
  ntrain :: "64 word"
  nvalidation :: "64 word"

definition error_aggregator_ctor :: error_aggregator where
  "error_aggregator_ctor =
     \<lparr>train_error = 0, validation_error = 0, ntrain = 0, nvalidation = 0\<rparr>"

text \<open>\<^verbatim>\<open>extract_l2_error\<close>, with Eigen's size check in \<^verbatim>\<open>dot\<close> and the \<^verbatim>\<open>assert\<close>.\<close>

definition extract_l2_error :: "globals \<Rightarrow> 'v graph_type \<Rightarrow> 'v edge_type \<Rightarrow> fatal + real" where
  "extract_l2_error g G edge =
     (let source_pvec = vertex_data.pvec (vertex_data_of G (source edge));
          target_pvec = vertex_data.pvec (vertex_data_of G (target edge))
      in
      if length source_pvec \<noteq> length target_pvec then Inl Eigen_Size_Mismatch
      else
        let pred0 = GLOBAL_MEAN g
              + vertex_data.bias (vertex_data_of G (source edge))
              + vertex_data.bias (vertex_data_of G (target edge))
              + dot source_pvec target_pvec;
            pred1 = min (MAXVAL g) pred0;
            pred = max (MINVAL g) pred1;
            rmse = (obs (data edge) - pred) * (obs (data edge) - pred)
        in
        if rmse \<le> (MAXVAL g - MINVAL g) ^ 2 then Inr rmse else Inl Assertion_Failed)"

text \<open>\<^verbatim>\<open>error_aggregator::map\<close>.\<close>

definition error_aggregator_map ::
  "globals \<Rightarrow> 'v graph_type \<Rightarrow> 'v edge_type \<Rightarrow> fatal + error_aggregator" where
  "error_aggregator_map g G edge =
     (let agg = error_aggregator_ctor in
      if role (data edge) = TRAIN then
        (case extract_l2_error g G edge of
           Inl f \<Rightarrow> Inl f
         | Inr e \<Rightarrow> Inr (agg\<lparr>train_error := e, ntrain := 1\<rparr>))
      else if role (data edge) = VALIDATE then
        (case extract_l2_error g G edge of
           Inl f \<Rightarrow> Inl f
         | Inr e \<Rightarrow> Inr (agg\<lparr>validation_error := e, nvalidation := 1\<rparr>))
      else Inr agg)"

text \<open>\<^verbatim>\<open>error_aggregator::operator+=\<close>; the counts are \<^verbatim>\<open>size_t\<close> and wrap.\<close>

definition error_aggregator_plus_assign ::
  "error_aggregator \<Rightarrow> error_aggregator \<Rightarrow> error_aggregator" where
  "error_aggregator_plus_assign this other =
     this\<lparr>train_error := train_error this + train_error other,
          validation_error := validation_error this + validation_error other,
          ntrain := ntrain this + ntrain other,
          nvalidation := nvalidation this + nvalidation other\<rparr>"

text \<open>\<^verbatim>\<open>std::sqrt\<close> on the reals: not-a-number below zero.\<close>

datatype double_result = Number real | NaN

definition std_sqrt :: "real \<Rightarrow> double_result" where
  "std_sqrt x = (if x < 0 then NaN else Number (sqrt x))"

text \<open>
  One line written to \<^verbatim>\<open>context.cout()\<close> by \<^verbatim>\<open>finalize\<close>: the training error and,
  when it is printed, the validation error. The elapsed time printed before them is not
  represented.
\<close>

record report =
  train_rmse :: real
  validation_rmse :: "double_result option"

text \<open>
  \<^verbatim>\<open>error_aggregator::finalize\<close>: whether the process was ended, the lines on
  \<^verbatim>\<open>context.cout()\<close>, and the globals, all as the call leaves them.
\<close>

definition finalize ::
  "report list \<Rightarrow> globals \<Rightarrow> error_aggregator \<Rightarrow> fatal option \<times> report list \<times> globals" where
  "finalize cout g agg =
     (let g1 = g\<lparr>iter := iter g + 1\<rparr> in
      if iter g1 mod 2 = 0 then (None, cout, g1)
      else if \<not> ntrain agg > 0 then (Some Assertion_Failed, cout, g1)
      else
        (case std_sqrt (train_error agg / real (unat (ntrain agg))) of
           NaN \<Rightarrow> (Some Assertion_Failed, cout, g1)
         | Number train_error' \<Rightarrow>
             let line =
               \<lparr>train_rmse = train_error',
                validation_rmse =
                  (if nvalidation agg > 0
                   then Some (std_sqrt (validation_error agg / real (unat (nvalidation agg))))
                   else None)\<rparr>
             in (None, cout @ [line], g1\<lparr>GAMMA := GAMMA g1 * STEP_DEC g1\<rparr>)))"

text \<open>\<^verbatim>\<open>finalize\<close> called once per aggregate of a list, while the process lives.\<close>

fun finalize_all ::
  "report list \<Rightarrow> globals \<Rightarrow> error_aggregator list \<Rightarrow> fatal option \<times> report list \<times> globals" where
  "finalize_all cout g [] = (None, cout, g)"
| "finalize_all cout g (agg # aggs) =
     (case finalize cout g agg of
        (Some f, cout', g') \<Rightarrow> (Some f, cout', g')
      | (None, cout', g') \<Rightarrow> finalize_all cout' g' aggs)"

subsection \<open>Saving predictions and loading edges\<close>

text \<open>
  \<^verbatim>\<open>prediction_saver::save_edge\<close>: the three fields of the line it formats. Vertex
  ids are unsigned machine integers of some width.
\<close>

definition save_edge ::
  "globals \<Rightarrow> ('w::len word) graph_type \<Rightarrow> ('w word) edge_type
     \<Rightarrow> fatal + ('w word \<times> 'w word \<times> real)" where
  "save_edge g G edge =
     (let source_pvec = vertex_data.pvec (vertex_data_of G (source edge));
          target_pvec = vertex_data.pvec (vertex_data_of G (target edge))
      in
      if length source_pvec \<noteq> length target_pvec then Inl Eigen_Size_Mismatch
      else
        let prediction = dot source_pvec target_pvec in
        Inr (source edge,
             if REMAP_TARGET g then - target edge - 2 else target edge,
             prediction))"

text \<open>
  The line grammar of \<^verbatim>\<open>graph_loader\<close>. Boost.Spirit's primitive parsers
  \<^verbatim>\<open>qi::ulong_\<close> and \<^verbatim>\<open>qi::float_\<close> are parameters: each takes the input left and
  gives the value and the rest, or fails. \<^verbatim>\<open>phrase_parse\<close> skips \<^verbatim>\<open>ascii::space\<close>
  before every primitive and succeeds when the grammar matches a prefix of the line.
\<close>

definition is_space :: "char \<Rightarrow> bool" where
  "is_space c = (c \<in> set [CHR '' '', CHR 0x09, CHR 0x0A, CHR 0x0B, CHR 0x0C, CHR 0x0D])"

definition skip :: "string \<Rightarrow> string" where
  "skip s = dropWhile is_space s"

definition opt_comma :: "string \<Rightarrow> string" where
  "opt_comma s = (case skip s of [] \<Rightarrow> s | c # r \<Rightarrow> if c = CHR '','' then r else s)"

definition phrase_parse ::
  "(string \<Rightarrow> (64 word \<times> string) option) \<Rightarrow> (string \<Rightarrow> (real \<times> string) option)
     \<Rightarrow> string \<Rightarrow> ('w::len word \<times> 'w word \<times> real) option" where
  "phrase_parse ulong_p float_p line =
     (case ulong_p (skip line) of
        None \<Rightarrow> None
      | Some (source_id, s1) \<Rightarrow>
          (case ulong_p (skip (opt_comma s1)) of
             None \<Rightarrow> None
           | Some (target_id, s2) \<Rightarrow>
               (case float_p (skip (opt_comma s2)) of
                  None \<Rightarrow> Some (ucast source_id, ucast target_id, 0)
                | Some (obs', s3) \<Rightarrow> Some (ucast source_id, ucast target_id, obs'))))"

text \<open>
  \<^verbatim>\<open>graph_loader\<close>: the value returned and the edges of the graph after the call
  (\<^verbatim>\<open>graph.add_edge\<close> appends one), or the end of the process.
\<close>

type_synonym 'w edges = "('w word \<times> 'w word \<times> edge_data) list"

definition graph_loader ::
  "globals \<Rightarrow> (string \<Rightarrow> (64 word \<times> string) option) \<Rightarrow> (string \<Rightarrow> (real \<times> string) option)
     \<Rightarrow> ('w::len) edges \<Rightarrow> string \<Rightarrow> string \<Rightarrow> fatal + (bool \<times> 'w edges)" where
  "graph_loader g ulong_p float_p graph filename line =
     (if line = [] then Inl Assertion_Failed
      else
        let role0 = TRAIN;
            role1 = (if suffix ''.validate'' filename then VALIDATE
                     else if suffix ''.predict'' filename then PREDICT else role0)
        in
        (case phrase_parse ulong_p float_p line of
           None \<Rightarrow> Inr (False, graph)
         | Some (source_id, target_id, obs') \<Rightarrow>
             let target_id' = (if REMAP_TARGET g then - (target_id + 2) else target_id) in
             Inr (True, graph @ [(source_id, target_id', \<lparr>obs = obs', role = role1\<rparr>)])))"

text \<open>
  The graph after the four writes of a training \<^verbatim>\<open>gather\<close> to the cached vertex data, in
  the order of the source: the two biases, then the two \<^verbatim>\<open>pvec\<close>s.
\<close>

definition gather_cache ::
  "'v graph_type \<Rightarrow> 'v \<Rightarrow> 'v \<Rightarrow> real \<Rightarrow> vec_type \<Rightarrow> vec_type \<Rightarrow> 'v graph_type" where
  "gather_cache G v w step delta other_delta =
     update_vertex (update_vertex (update_vertex (update_vertex G v
       (\<lambda>d. d\<lparr>vertex_data.bias := vertex_data.bias d + step\<rparr>)) w
       (\<lambda>d. d\<lparr>vertex_data.bias := vertex_data.bias d + step\<rparr>)) v
       (\<lambda>d. d\<lparr>vertex_data.pvec := vec_plus (vertex_data.pvec d) delta\<rparr>)) w
       (\<lambda>d. d\<lparr>vertex_data.pvec := vec_plus (vertex_data.pvec d) other_delta\<rparr>)"

subsection \<open>Runs of the error report\<close>

text \<open>
  The line \<^verbatim>\<open>finalize\<close> prints for an aggregate when it reports, and the elements of a
  list at every second position: \<open>alternate True\<close> keeps the elements at the positions
  0, 2, 4 and so on, \<open>alternate False\<close> those at 1, 3, 5 and so on.
\<close>

definition report_of :: "error_aggregator \<Rightarrow> report" where
  "report_of agg =
     \<lparr>train_rmse = sqrt (train_error agg / real (unat (ntrain agg))),
      validation_rmse =
        (if nvalidation agg = 0 then None
         else Some (std_sqrt (validation_error agg / real (unat (nvalidation agg)))))\<rparr>"

fun alternate :: "bool \<Rightarrow> 'a list \<Rightarrow> 'a list" where
  "alternate b [] = []"
| "alternate b (x # xs) = (if b then x # alternate (\<not> b) xs else alternate (\<not> b) xs)"

subsection \<open>Example data\<close>

text \<open>
  A row vertex 0 and a column vertex 1 joined by one training edge, with a learning rate
  of 0.1, a regularisation weight of 0.5, the clamp \<open>[0, 5]\<close> and a budget of 10 updates.
\<close>

abbreviation ex_globals :: globals where
  "ex_globals \<equiv> \<lparr>NLATENT = 2, LAMBDA = 1 / 2, GAMMA = 1 / 10, MAXVAL = 5, MINVAL = 0,
     STEP_DEC = 9 / 10, MAX_UPDATES = 10, GLOBAL_MEAN = 1, iter = 0, REMAP_TARGET = False\<rparr>"

abbreviation ex_row :: vertex_data where
  "ex_row \<equiv> \<lparr>nupdates = 5, vertex_data.pvec = [1, 2], weight = [], vertex_data.bias = 1\<rparr>"

abbreviation ex_column :: vertex_data where
  "ex_column \<equiv> \<lparr>nupdates = 3, vertex_data.pvec = [3, 1], weight = [], vertex_data.bias = 0\<rparr>"

abbreviation ex_graph :: "('v :: zero) graph_type" where
  "ex_graph \<equiv> \<lparr>vertex_data_of = (\<lambda>v. if v = 0 then ex_row else ex_column),
     num_in_edges = (\<lambda>v. if v = 0 then 0 else 1),
     num_out_edges = (\<lambda>v. if v = 0 then 1 else 0)\<rparr>"

abbreviation ex_edge :: "('v :: {zero, one}) edge_type" where
  "ex_edge \<equiv> \<lparr>source = 0, target = 1, data = \<lparr>obs = 4, role = TRAIN\<rparr>\<rparr>"

text \<open>
  Stand-ins for the two Boost.Spirit primitives in the examples: \<open>ex_ulong\<close> reads a
  non-empty run of decimal digits whose value is below \<open>2 ^ 64\<close>, and \<open>ex_float\<close> reads
  a non-empty run of decimal digits as a real.
\<close>

definition is_digit :: "char \<Rightarrow> bool" where
  "is_digit c = (c \<in> set ''0123456789'')"

fun digits_value :: "nat \<Rightarrow> string \<Rightarrow> nat" where
  "digits_value n [] = n"
| "digits_value n (c # cs) = digits_value (10 * n + (of_char c - 48)) cs"

definition ex_ulong :: "string \<Rightarrow> (64 word \<times> string) option" where
  "ex_ulong s =
     (let ds = takeWhile is_digit s; n = digits_value 0 ds in
      if ds = [] \<or> 2 ^ 64 \<le> n then None else Some (of_nat n, dropWhile is_digit s))"

definition ex_float :: "string \<Rightarrow> (real \<times> string) option" where
  "ex_float s =
     (let ds = takeWhile is_digit s in
      if ds = [] then None else Some (real (digits_value 0 ds), dropWhile is_digit s))"

text \<open>An aggregate of two training samples and one validation sample.\<close>

abbreviation ex_agg :: error_aggregator where
  "ex_agg \<equiv> \<lparr>train_error = 8, validation_error = 4, ntrain = 2, nvalidation = 1\<rparr>"

section \<open>Properties\<close>

subsection \<open>Rounding and gather\<close>

lemma round_to_at:
  assumes "2 powr of_int e \<le> \<bar>x\<bar>" and "\<bar>x\<bar> < 2 powr (of_int e + 1)" and "emin \<le> e"
  shows "round_to p emin x
    = of_int (round_even (x / 2 powr (of_int e - of_nat p + 1))) * 2 powr (of_int e - of_nat p + 1)"
proof -
  have pos: "0 < \<bar>x\<bar>" using assms(1) by (smt (verit) powr_gt_zero)
  then have nz: "x \<noteq> 0" by simp
  have "\<lfloor>log 2 \<bar>x\<bar>\<rfloor> = e"
    using assms(1,2) pos by (simp add: floor_log_eq_powr_iff)
  with nz assms(3) show ?thesis by (simp add: round_to_def Let_def max_def)
qed

lemma to_float_not_nan: "to_float x \<noteq> Fp_NaN"
  by (simp add: to_float_def Let_def)

lemma to_float_one: "to_float 1 = Fp 1"
  using round_to_at [of 0 1 "- 126" 24] by (simp add: to_float_def round_even_def powr_minus)

lemma below_budget: "((ucast (n :: 32 word) :: 64 word) < m) = (unat n < unat m)"
proof -
  have "unat n < 2 ^ 32" using unsigned_less [of n] by simp
  then have "unat n < (2 :: nat) ^ 64" by simp
  then have "unat (ucast n :: 64 word) = unat n"
    by (simp add: unsigned_ucast_eq take_bit_nat_eq_self)
  then show ?thesis by (simp add: word_less_nat_alt)
qed

lemma nupdates_update_vertex:
  "(\<And>d. nupdates (f d) = nupdates d) \<Longrightarrow>
   nupdates (vertex_data_of (update_vertex G v f) u) = nupdates (vertex_data_of G u)"
  by (simp add: update_vertex_def)

lemma nupdates_gather_cache:
  "nupdates (vertex_data_of (gather_cache G v w step delta other_delta) u)
     = nupdates (vertex_data_of G u)"
  by (simp add: gather_cache_def nupdates_update_vertex)

lemma gather_left:
  assumes "num_in_edges G v = 0"
    and "length (vertex_data.pvec (vertex_data_of G v))
       = length (vertex_data.pvec (vertex_data_of G (get_other_vertex e v)))"
    and w: "w = get_other_vertex e v"
    and own: "own = vertex_data.pvec (vertex_data_of G v)"
    and other: "other = vertex_data.pvec (vertex_data_of G w)"
    and pred: "pred = max (min (GLOBAL_MEAN g + vertex_data.bias (vertex_data_of G (source e))
                 + vertex_data.bias (vertex_data_of G (target e)) + dot own other) (MAXVAL g))
                 (MINVAL g)"
  shows "gather g G v e =
     (case to_float (pred - obs (data e)) of
        Fp_NaN \<Rightarrow> Inl Assertion_Failed
      | Fp_Inf \<Rightarrow> if role (data e) = TRAIN then Inl Not_Finite
                  else Inr (\<lparr>gather_type.pvec = [], gather_type.bias = 0\<rparr>, G, [])
      | Fp err \<Rightarrow>
          if role (data e) = TRAIN then
            Inr (\<lparr>gather_type.pvec = scale (- GAMMA g)
                     (vec_minus (scale err other) (scale (LAMBDA g) own)),
                  gather_type.bias = - GAMMA g * (err - LAMBDA g * 0)\<rparr>,
                 gather_cache G v w (- GAMMA g * (err - LAMBDA g * 0))
                   (scale (- GAMMA g) (vec_minus (scale err other) (scale (LAMBDA g) own)))
                   (scale (- GAMMA g) (vec_minus (scale err own) (scale (LAMBDA g) other))),
                 if unat (nupdates (vertex_data_of G w)) < unat (MAX_UPDATES g)
                 then [(w, \<lparr>gather_type.pvec = scale (- GAMMA g)
                              (vec_minus (scale err own) (scale (LAMBDA g) other)),
                            gather_type.bias = - GAMMA g * (err - LAMBDA g * 0)\<rparr>)]
                 else [])
          else Inr (\<lparr>gather_type.pvec = [], gather_type.bias = 0\<rparr>, G, []))"
proof -
  show ?thesis
    unfolding gather_def Let_def
    using assms(1,2)
    by (simp add: w [symmetric] own [symmetric] other [symmetric] pred [symmetric]
        gather_type_ctor_def gather_cache_def nupdates_update_vertex below_budget
        split: fp_value.splits)
qed


lemma gather_mismatch:
  assumes "num_in_edges G v = 0"
    and "length (vertex_data.pvec (vertex_data_of G v))
       \<noteq> length (vertex_data.pvec (vertex_data_of G (get_other_vertex e v)))"
  shows "gather g G v e = Inl Eigen_Size_Mismatch"
  using assms by (simp add: gather_def Let_def)

lemma gather_right: "0 < num_in_edges G v \<Longrightarrow>
   gather g G v e = Inr (\<lparr>gather_type.pvec = [], gather_type.bias = 0\<rparr>, G, [])"
  by (simp add: gather_def gather_type_ctor_def)

text \<open>Every way \<^verbatim>\<open>gather\<close> can return.\<close>

lemma gather_returns:
  assumes "gather g G v e = Inr (acc, G', sigs)"
  shows "(G' = G \<and> sigs = [])
    \<or> (role (data e) = TRAIN
       \<and> (\<exists>step delta other_delta msg.
            G' = gather_cache G v (get_other_vertex e v) step delta other_delta
            \<and> (sigs = [] \<or> sigs = [(get_other_vertex e v, msg)]
                \<and> unat (nupdates (vertex_data_of G (get_other_vertex e v)))
                    < unat (MAX_UPDATES g))))"
proof (cases "num_in_edges G v = 0")
  case False
  with gather_right [of G v g e] assms show ?thesis by simp
next
  case left: True
  show ?thesis
  proof (cases "length (vertex_data.pvec (vertex_data_of G v))
       = length (vertex_data.pvec (vertex_data_of G (get_other_vertex e v)))")
    case False
    with left gather_mismatch [of G v e g] assms show ?thesis by simp
  next
    case len: True
    note run = gather_left [OF left len refl refl refl refl, of g]
    show ?thesis
    proof (cases "to_float (max (min (GLOBAL_MEAN g
          + vertex_data.bias (vertex_data_of G (source e))
          + vertex_data.bias (vertex_data_of G (target e))
          + dot (vertex_data.pvec (vertex_data_of G v))
              (vertex_data.pvec (vertex_data_of G (get_other_vertex e v))))
          (MAXVAL g)) (MINVAL g) - obs (data e))")
      case (Fp err)
      show ?thesis
      proof (cases "role (data e) = TRAIN")
        case True
        with run Fp assms show ?thesis
          by (simp split: if_splits) blast+
      next
        case False
        with run Fp assms show ?thesis by simp
      qed
    next
      case Fp_Inf
      with run assms show ?thesis by (simp split: if_splits)
    next
      case Fp_NaN
      with run assms show ?thesis by simp
    qed
  qed
qed


lemma gather_nupdates:
  assumes "gather g G vertex edge = Inr (acc, G', sigs)"
  shows "nupdates (vertex_data_of G' u) = nupdates (vertex_data_of G u)"
  using gather_returns [OF assms] by (auto simp: nupdates_gather_cache)




text \<open>The example edge: the prediction 7 is cut to 5, and the residual 1 is a \<^verbatim>\<open>float\<close>.\<close>

lemma ex_gather:
  "gather ex_globals ex_graph (0 :: nat) ex_edge
     = Inr (\<lparr>gather_type.pvec = [- 1 / 4, 0], gather_type.bias = - 1 / 10\<rparr>,
         gather_cache ex_graph 0 1 (- 1 / 10) [- 1 / 4, 0] [1 / 20, - 3 / 20],
         [(1, \<lparr>gather_type.pvec = [1 / 20, - 3 / 20], gather_type.bias = - 1 / 10\<rparr>)])"
  by (simp add: gather_def gather_cache_def get_other_vertex_def dot_def gather_type_ctor_def
      scale_def vec_minus_def Let_def update_vertex_def to_float_one)

subsection \<open>Apply and the message hook\<close>

lemma apply_fn_nupdates:
  "apply_fn prog G vertex s = Inr G' \<Longrightarrow>
   nupdates (vertex_data_of G' vertex) = nupdates (vertex_data_of G vertex) + 1"
  by (auto simp: apply_fn_def update_vertex_def Let_def split: if_splits)

lemma apply_all_nupdates:
  "apply_all prog G vertex accs = Inr G' \<Longrightarrow>
   nupdates (vertex_data_of G' vertex) = nupdates (vertex_data_of G vertex) + of_nat (length accs)"
proof (induction accs arbitrary: G)
  case Nil
  then show ?case by simp
next
  case (Cons a accs)
  from Cons.prems obtain G1 where 1: "apply_fn prog G vertex a = Inr G1"
    and 2: "apply_all prog G1 vertex accs = Inr G'"
    by (auto split: sum.splits)
  from Cons.IH [OF 2] apply_fn_nupdates [OF 1] show ?case by simp
qed

lemma unat_plus_of_nat:
  "unat (w :: 32 word) + n < 2 ^ 32 \<Longrightarrow> unat (w + of_nat n) = unat w + n"
  by (simp add: unat_word_ariths unat_of_nat)

lemma unat_plus_one:
  fixes w :: "32 word"
  assumes "w \<noteq> 0xFFFFFFFF"
  shows "unat (w + 1) = unat w + 1"
proof -
  from assms have "unat w \<noteq> unat (0xFFFFFFFF :: 32 word)"
    by (simp only: word_unat_eq_iff not_False_eq_True)
  moreover have "unat w < 2 ^ 32" using unsigned_less [of w] by simp
  ultimately have "unat w + 1 < 2 ^ 32" by simp
  then show ?thesis using unat_plus_of_nat [of w 1] by simp
qed

text \<open>
  C5. On a vertex with an incoming edge \<^verbatim>\<open>gather\<close> returns the empty accumulator for
  any edge, writes nothing to the cached vertex data and sends no signal, and
  \<^verbatim>\<open>init\<close> stores the message in \<^verbatim>\<open>pmsg\<close>; on a vertex with no incoming edge
  \<^verbatim>\<open>init\<close> leaves \<^verbatim>\<open>pmsg\<close> as it is.
\<close>

theorem gather_init_right_side:
  "(0 < num_in_edges G vertex \<longrightarrow>
      gather g G vertex edge = Inr (\<lparr>gather_type.pvec = [], gather_type.bias = 0\<rparr>, G, [])
      \<and> init prog G vertex msg = prog\<lparr>pmsg := msg\<rparr>)
   \<and> (num_in_edges G vertex = 0 \<longrightarrow> init prog G vertex msg = prog)"
  by (simp add: gather_def gather_type_ctor_def init_def)

theorem gather_init_right_side_witness:
  "0 < num_in_edges ex_graph (1 :: nat)
   \<and> gather ex_globals ex_graph (1 :: nat) ex_edge
     = Inr (\<lparr>gather_type.pvec = [], gather_type.bias = 0\<rparr>, ex_graph, [])
   \<and> init \<lparr>pmsg = \<lparr>gather_type.pvec = [], gather_type.bias = 0\<rparr>\<rparr> ex_graph (1 :: nat)
       \<lparr>gather_type.pvec = [7, 8], gather_type.bias = 9\<rparr>
     = \<lparr>pmsg = \<lparr>gather_type.pvec = [7, 8], gather_type.bias = 9\<rparr>\<rparr>
   \<and> num_in_edges ex_graph (0 :: nat) = 0
   \<and> init \<lparr>pmsg = \<lparr>gather_type.pvec = [], gather_type.bias = 0\<rparr>\<rparr> ex_graph (0 :: nat)
       \<lparr>gather_type.pvec = [7, 8], gather_type.bias = 9\<rparr>
     = \<lparr>pmsg = \<lparr>gather_type.pvec = [], gather_type.bias = 0\<rparr>\<rparr>"
  using gather_init_right_side [of ex_graph "1 :: nat" ex_globals ex_edge
      "\<lparr>pmsg = \<lparr>gather_type.pvec = [], gather_type.bias = 0\<rparr>\<rparr>"
      "\<lparr>gather_type.pvec = [7, 8], gather_type.bias = 9\<rparr>"]
    gather_init_right_side [of ex_graph "0 :: nat" ex_globals ex_edge
      "\<lparr>pmsg = \<lparr>gather_type.pvec = [], gather_type.bias = 0\<rparr>\<rparr>"
      "\<lparr>gather_type.pvec = [7, 8], gather_type.bias = 9\<rparr>"]
  by simp

text \<open>
  C6, as the code has it. An \<^verbatim>\<open>apply\<close> that returns adds one to the 32-bit
  \<^verbatim>\<open>nupdates\<close> of its vertex on every branch, modulo \<open>2 ^ 32\<close>: the count grows by
  exactly one unless it was \<open>2 ^ 32 - 1\<close>, where it wraps to 0. A run of returning
  \<^verbatim>\<open>apply\<close> calls that stays below \<open>2 ^ 32\<close> adds the number of calls, and
  \<^verbatim>\<open>gather\<close> leaves every count as it is.
\<close>

theorem apply_fn_update_count:
  "(apply_fn prog G vertex s = Inr G1 \<longrightarrow>
      nupdates (vertex_data_of G1 vertex) = nupdates (vertex_data_of G vertex) + 1
      \<and> (nupdates (vertex_data_of G vertex) \<noteq> 0xFFFFFFFF \<longrightarrow>
           unat (nupdates (vertex_data_of G1 vertex))
             = unat (nupdates (vertex_data_of G vertex)) + 1)
      \<and> (nupdates (vertex_data_of G vertex) = 0xFFFFFFFF \<longrightarrow>
           nupdates (vertex_data_of G1 vertex) = 0))
   \<and> (apply_all prog G vertex accs = Inr G2
        \<and> unat (nupdates (vertex_data_of G vertex)) + length accs < 2 ^ 32 \<longrightarrow>
      unat (nupdates (vertex_data_of G2 vertex))
        = unat (nupdates (vertex_data_of G vertex)) + length accs)
   \<and> (gather g G u edge = Inr (acc, G3, sigs) \<longrightarrow>
      nupdates (vertex_data_of G3 vertex) = nupdates (vertex_data_of G vertex))"
proof (intro conjI impI)
  assume run: "apply_fn prog G vertex s = Inr G1"
  show inc: "nupdates (vertex_data_of G1 vertex) = nupdates (vertex_data_of G vertex) + 1"
    by (rule apply_fn_nupdates [OF run])
  show "unat (nupdates (vertex_data_of G1 vertex)) = unat (nupdates (vertex_data_of G vertex)) + 1"
    if "nupdates (vertex_data_of G vertex) \<noteq> 0xFFFFFFFF"
    using unat_plus_one [OF that] inc by simp
  show "nupdates (vertex_data_of G1 vertex) = 0"
    if "nupdates (vertex_data_of G vertex) = 0xFFFFFFFF"
    using that inc by simp
next
  assume "apply_all prog G vertex accs = Inr G2
        \<and> unat (nupdates (vertex_data_of G vertex)) + length accs < 2 ^ 32"
  then show "unat (nupdates (vertex_data_of G2 vertex))
        = unat (nupdates (vertex_data_of G vertex)) + length accs"
    using apply_all_nupdates [of prog G vertex accs G2]
      unat_plus_of_nat [of "nupdates (vertex_data_of G vertex)" "length accs"]
    by simp
next
  assume "gather g G u edge = Inr (acc, G3, sigs)"
  then show "nupdates (vertex_data_of G3 vertex) = nupdates (vertex_data_of G vertex)"
    by (rule gather_nupdates)
qed


theorem apply_fn_update_count_witness:
  "apply_fn \<lparr>pmsg = \<lparr>gather_type.pvec = [], gather_type.bias = 0\<rparr>\<rparr> ex_graph (0 :: nat)
       \<lparr>gather_type.pvec = [10, 20], gather_type.bias = 7\<rparr>
     = Inr (update_vertex ex_graph 0 (\<lambda>d. d\<lparr>nupdates := 6, vertex_data.pvec := [11, 22]\<rparr>))
   \<and> apply_fn \<lparr>pmsg = \<lparr>gather_type.pvec = [10, 20], gather_type.bias = 7\<rparr>\<rparr> ex_graph (1 :: nat)
       \<lparr>gather_type.pvec = [], gather_type.bias = 0\<rparr>
     = Inr (update_vertex ex_graph 1
         (\<lambda>d. d\<lparr>nupdates := 4, vertex_data.pvec := [13, 21], vertex_data.bias := 7\<rparr>))
   \<and> apply_fn \<lparr>pmsg = \<lparr>gather_type.pvec = [], gather_type.bias = 0\<rparr>\<rparr> ex_graph (0 :: nat)
       \<lparr>gather_type.pvec = [], gather_type.bias = 0\<rparr>
     = Inr (update_vertex ex_graph 0 (\<lambda>d. d\<lparr>nupdates := 6\<rparr>))
   \<and> nupdates (vertex_data_of ex_graph (0 :: nat)) \<noteq> 0xFFFFFFFF
   \<and> unat (nupdates (vertex_data_of ex_graph (0 :: nat))) + 1 = 6
   \<and> apply_all \<lparr>pmsg = \<lparr>gather_type.pvec = [], gather_type.bias = 0\<rparr>\<rparr> ex_graph (0 :: nat)
       [\<lparr>gather_type.pvec = [10, 20], gather_type.bias = 7\<rparr>,
        \<lparr>gather_type.pvec = [], gather_type.bias = 0\<rparr>]
     = Inr (update_vertex ex_graph 0 (\<lambda>d. d\<lparr>nupdates := 7, vertex_data.pvec := [11, 22]\<rparr>))
   \<and> unat (nupdates (vertex_data_of ex_graph (0 :: nat))) + length
       [\<lparr>gather_type.pvec = [10, 20], gather_type.bias = 7\<rparr>,
        \<lparr>gather_type.pvec = [], gather_type.bias = 0\<rparr>] = 7
   \<and> gather ex_globals ex_graph (0 :: nat) ex_edge
     = Inr (\<lparr>gather_type.pvec = [- 1 / 4, 0], gather_type.bias = - 1 / 10\<rparr>,
         gather_cache ex_graph 0 1 (- 1 / 10) [- 1 / 4, 0] [1 / 20, - 3 / 20],
         [(1, \<lparr>gather_type.pvec = [1 / 20, - 3 / 20], gather_type.bias = - 1 / 10\<rparr>)])
   \<and> nupdates (vertex_data_of
         (gather_cache ex_graph 0 1 (- 1 / 10) [- 1 / 4, 0] [1 / 20, - 3 / 20]) (0 :: nat)) = 5"
proof -
  have one: "apply_fn \<lparr>pmsg = \<lparr>gather_type.pvec = [], gather_type.bias = 0\<rparr>\<rparr> ex_graph (0 :: nat)
       \<lparr>gather_type.pvec = [10, 20], gather_type.bias = 7\<rparr>
     = Inr (update_vertex ex_graph 0 (\<lambda>d. d\<lparr>nupdates := 6, vertex_data.pvec := [11, 22]\<rparr>))"
    by (simp add: apply_fn_def update_vertex_def vec_plus_def fun_eq_iff)
  have msg: "apply_fn \<lparr>pmsg = \<lparr>gather_type.pvec = [10, 20], gather_type.bias = 7\<rparr>\<rparr> ex_graph
       (1 :: nat) \<lparr>gather_type.pvec = [], gather_type.bias = 0\<rparr>
     = Inr (update_vertex ex_graph 1
         (\<lambda>d. d\<lparr>nupdates := 4, vertex_data.pvec := [13, 21], vertex_data.bias := 7\<rparr>))"
    by (simp add: apply_fn_def update_vertex_def vec_plus_def fun_eq_iff)
  have none: "apply_fn \<lparr>pmsg = \<lparr>gather_type.pvec = [], gather_type.bias = 0\<rparr>\<rparr> ex_graph
       (0 :: nat) \<lparr>gather_type.pvec = [], gather_type.bias = 0\<rparr>
     = Inr (update_vertex ex_graph 0 (\<lambda>d. d\<lparr>nupdates := 6\<rparr>))"
    by (simp add: apply_fn_def update_vertex_def vec_plus_def fun_eq_iff)
  have two: "apply_all \<lparr>pmsg = \<lparr>gather_type.pvec = [], gather_type.bias = 0\<rparr>\<rparr> ex_graph (0 :: nat)
       [\<lparr>gather_type.pvec = [10, 20], gather_type.bias = 7\<rparr>,
        \<lparr>gather_type.pvec = [], gather_type.bias = 0\<rparr>]
     = Inr (update_vertex ex_graph 0 (\<lambda>d. d\<lparr>nupdates := 7, vertex_data.pvec := [11, 22]\<rparr>))"
    by (simp add: apply_fn_def update_vertex_def vec_plus_def fun_eq_iff)
  have run: "gather ex_globals ex_graph (0 :: nat) ex_edge
     = Inr (\<lparr>gather_type.pvec = [- 1 / 4, 0], gather_type.bias = - 1 / 10\<rparr>,
         gather_cache ex_graph 0 1 (- 1 / 10) [- 1 / 4, 0] [1 / 20, - 3 / 20],
         [(1, \<lparr>gather_type.pvec = [1 / 20, - 3 / 20], gather_type.bias = - 1 / 10\<rparr>)])"
    by (rule ex_gather)
  note count = apply_fn_update_count
    [of "\<lparr>pmsg = \<lparr>gather_type.pvec = [], gather_type.bias = 0\<rparr>\<rparr>" ex_graph "0 :: nat"
      "\<lparr>gather_type.pvec = [10, 20], gather_type.bias = 7\<rparr>"
      "update_vertex ex_graph 0 (\<lambda>d. d\<lparr>nupdates := 6, vertex_data.pvec := [11, 22]\<rparr>)"
      "[\<lparr>gather_type.pvec = [10, 20], gather_type.bias = 7\<rparr>,
        \<lparr>gather_type.pvec = [], gather_type.bias = 0\<rparr>]"
      "update_vertex ex_graph 0 (\<lambda>d. d\<lparr>nupdates := 7, vertex_data.pvec := [11, 22]\<rparr>)"
      ex_globals 0 ex_edge
      "\<lparr>gather_type.pvec = [- 1 / 4, 0], gather_type.bias = - 1 / 10\<rparr>"
      "gather_cache ex_graph 0 1 (- 1 / 10) [- 1 / 4, 0] [1 / 20, - 3 / 20]"
      "[(1, \<lparr>gather_type.pvec = [1 / 20, - 3 / 20], gather_type.bias = - 1 / 10\<rparr>)]"]
  have "nupdates (vertex_data_of
         (gather_cache ex_graph 0 1 (- 1 / 10) [- 1 / 4, 0] [1 / 20, - 3 / 20]) (0 :: nat)) = 5"
    using count [THEN conjunct2, THEN conjunct2, rule_format, OF run] by simp
  with one msg none two run show ?thesis by simp
qed

text \<open>
  The count does decrease: at \<open>2 ^ 32 - 1\<close> updates one more \<^verbatim>\<open>apply\<close> gives 0.
\<close>

theorem apply_fn_update_count_counterexample:
  "apply_fn \<lparr>pmsg = \<lparr>gather_type.pvec = [], gather_type.bias = 0\<rparr>\<rparr>
       (update_vertex ex_graph (0 :: nat) (\<lambda>d. d\<lparr>nupdates := 0xFFFFFFFF\<rparr>)) 0
       \<lparr>gather_type.pvec = [10, 20], gather_type.bias = 7\<rparr>
     = Inr (update_vertex ex_graph 0 (\<lambda>d. d\<lparr>nupdates := 0, vertex_data.pvec := [11, 22]\<rparr>))
   \<and> nupdates (vertex_data_of (update_vertex ex_graph 0
         (\<lambda>d. d\<lparr>nupdates := 0, vertex_data.pvec := [11, 22]\<rparr>)) (0 :: nat))
     < nupdates (vertex_data_of (update_vertex ex_graph (0 :: nat)
         (\<lambda>d. d\<lparr>nupdates := 0xFFFFFFFF\<rparr>)) 0)"
  by (simp add: apply_fn_def update_vertex_def vec_plus_def fun_eq_iff)

text \<open>
  C7. With a non-empty \<^verbatim>\<open>sum.pvec\<close>, an \<^verbatim>\<open>apply\<close> that returns has added it to the
  \<^verbatim>\<open>pvec\<close> of the vertex and one to its \<^verbatim>\<open>nupdates\<close>; the \<^verbatim>\<open>bias\<close> and
  \<^verbatim>\<open>weight\<close> of the vertex, the other vertices and the edge counts are as before. It
  returns exactly when the two vectors have one size and the vertex has no incoming edge.
\<close>

theorem apply_fn_nonempty_sum:
  assumes "gather_type.pvec s \<noteq> []"
  shows "(apply_fn prog G vertex s = Inr G1 \<longrightarrow>
      vertex_data.pvec (vertex_data_of G1 vertex)
        = map2 (+) (vertex_data.pvec (vertex_data_of G vertex)) (gather_type.pvec s)
      \<and> vertex_data.bias (vertex_data_of G1 vertex) = vertex_data.bias (vertex_data_of G vertex)
      \<and> weight (vertex_data_of G1 vertex) = weight (vertex_data_of G vertex)
      \<and> nupdates (vertex_data_of G1 vertex) = nupdates (vertex_data_of G vertex) + 1
      \<and> (\<forall>u. u \<noteq> vertex \<longrightarrow> vertex_data_of G1 u = vertex_data_of G u)
      \<and> num_in_edges G1 = num_in_edges G \<and> num_out_edges G1 = num_out_edges G)
   \<and> ((\<exists>G2. apply_fn prog G vertex s = Inr G2)
        = (length (vertex_data.pvec (vertex_data_of G vertex)) = length (gather_type.pvec s)
           \<and> num_in_edges G vertex = 0))"
  using assms by (auto simp: apply_fn_def update_vertex_def vec_plus_def)

theorem apply_fn_nonempty_sum_witness:
  "gather_type.pvec \<lparr>gather_type.pvec = [10, 20], gather_type.bias = 7\<rparr> \<noteq> []
   \<and> apply_fn \<lparr>pmsg = \<lparr>gather_type.pvec = [5, 5], gather_type.bias = 2\<rparr>\<rparr> ex_graph (0 :: nat)
       \<lparr>gather_type.pvec = [10, 20], gather_type.bias = 7\<rparr>
     = Inr (update_vertex ex_graph 0 (\<lambda>d. d\<lparr>nupdates := 6, vertex_data.pvec := [11, 22]\<rparr>))
   \<and> vertex_data_of (update_vertex ex_graph (0 :: nat)
         (\<lambda>d. d\<lparr>nupdates := 6, vertex_data.pvec := [11, 22]\<rparr>)) 0
     = \<lparr>nupdates = 6, vertex_data.pvec = [11, 22], weight = [], vertex_data.bias = 1\<rparr>
   \<and> vertex_data.bias (vertex_data_of ex_graph (0 :: nat)) = 1"
proof -
  have ne: "gather_type.pvec \<lparr>gather_type.pvec = [10, 20], gather_type.bias = 7\<rparr> \<noteq> []"
    by simp
  have run: "apply_fn \<lparr>pmsg = \<lparr>gather_type.pvec = [5, 5], gather_type.bias = 2\<rparr>\<rparr> ex_graph
       (0 :: nat) \<lparr>gather_type.pvec = [10, 20], gather_type.bias = 7\<rparr>
     = Inr (update_vertex ex_graph 0 (\<lambda>d. d\<lparr>nupdates := 6, vertex_data.pvec := [11, 22]\<rparr>))"
    by (simp add: apply_fn_def update_vertex_def vec_plus_def fun_eq_iff)
  from apply_fn_nonempty_sum [OF ne, THEN conjunct1, rule_format, OF run] ne run
  show ?thesis by (simp add: update_vertex_def)
qed

subsection \<open>Errors and predictions of an edge\<close>

lemma extract_l2_error_eq:
  assumes "length (vertex_data.pvec (vertex_data_of G (source e)))
       = length (vertex_data.pvec (vertex_data_of G (target e)))"
    and "pred = max (MINVAL g) (min (MAXVAL g)
           (GLOBAL_MEAN g + vertex_data.bias (vertex_data_of G (source e))
            + vertex_data.bias (vertex_data_of G (target e))
            + dot (vertex_data.pvec (vertex_data_of G (source e)))
                (vertex_data.pvec (vertex_data_of G (target e)))))"
  shows "extract_l2_error g G e =
     (if (obs (data e) - pred)\<^sup>2 \<le> (MAXVAL g - MINVAL g)\<^sup>2
      then Inr ((obs (data e) - pred)\<^sup>2) else Inl Assertion_Failed)"
  using assms by (simp add: extract_l2_error_def Let_def power2_eq_square)

lemma square_bound:
  fixes x p lo hi :: real
  assumes "lo \<le> x" "x \<le> hi" "lo \<le> p" "p \<le> hi"
  shows "(x - p)\<^sup>2 \<le> (hi - lo)\<^sup>2"
proof -
  have "\<bar>x - p\<bar> \<le> \<bar>hi - lo\<bar>" using assms by simp
  then show ?thesis by (simp only: abs_le_square_iff)
qed

text \<open>
  C10. For an edge whose observed value lies within \<open>[MINVAL, MAXVAL]\<close> (and whose
  endpoint vectors have one size) the prediction of \<^verbatim>\<open>extract_l2_error\<close> is clamped
  into \<open>[MINVAL, MAXVAL]\<close>, the squared residual is at most \<open>(MAXVAL - MINVAL)\<^sup>2\<close>, so
  the assertion holds and the squared residual is returned. Outside that range the
  assertion can fail: with the clamp \<open>[0, 5]\<close>, the prediction 5 and the observed value
  11 the squared residual is 36.
\<close>

theorem extract_l2_error_assertion:
  assumes "MINVAL g \<le> obs (data e)" and "obs (data e) \<le> MAXVAL g"
    and "length (vertex_data.pvec (vertex_data_of G (source e)))
       = length (vertex_data.pvec (vertex_data_of G (target e)))"
    and "pred = max (MINVAL g) (min (MAXVAL g)
           (GLOBAL_MEAN g + vertex_data.bias (vertex_data_of G (source e))
            + vertex_data.bias (vertex_data_of G (target e))
            + dot (vertex_data.pvec (vertex_data_of G (source e)))
                (vertex_data.pvec (vertex_data_of G (target e)))))"
  shows "MINVAL g \<le> pred \<and> pred \<le> MAXVAL g
     \<and> (obs (data e) - pred)\<^sup>2 \<le> (MAXVAL g - MINVAL g)\<^sup>2
     \<and> extract_l2_error g G e = Inr ((obs (data e) - pred)\<^sup>2)
     \<and> extract_l2_error ex_globals (ex_graph :: nat graph_type)
          (ex_edge\<lparr>data := \<lparr>obs = 11, role = TRAIN\<rparr>\<rparr>) = Inl Assertion_Failed"
proof -
  have range: "MINVAL g \<le> pred \<and> pred \<le> MAXVAL g" using assms(1,2,4) by auto
  then have bound: "(obs (data e) - pred)\<^sup>2 \<le> (MAXVAL g - MINVAL g)\<^sup>2"
    using square_bound [of "MINVAL g" "obs (data e)" "MAXVAL g" pred] assms(1,2) by simp
  have run: "extract_l2_error g G e = Inr ((obs (data e) - pred)\<^sup>2)"
    using extract_l2_error_eq [OF assms(3,4)] bound by simp
  have outside: "extract_l2_error ex_globals (ex_graph :: nat graph_type)
          (ex_edge\<lparr>data := \<lparr>obs = 11, role = TRAIN\<rparr>\<rparr>) = Inl Assertion_Failed"
    by (simp add: extract_l2_error_def dot_def)
  from range bound run outside show ?thesis by simp
qed

theorem extract_l2_error_assertion_witness:
  "MINVAL ex_globals \<le> obs (data (ex_edge :: nat edge_type))
   \<and> obs (data (ex_edge :: nat edge_type)) \<le> MAXVAL ex_globals
   \<and> max (MINVAL ex_globals) (min (MAXVAL ex_globals)
        (GLOBAL_MEAN ex_globals + vertex_data.bias ex_row + vertex_data.bias ex_column
         + dot [1, 2] [3, 1])) = 5
   \<and> extract_l2_error ex_globals (ex_graph :: nat graph_type) ex_edge = Inr 1
   \<and> (1 :: real) \<le> (MAXVAL ex_globals - MINVAL ex_globals)\<^sup>2"
  using extract_l2_error_assertion [of ex_globals "ex_edge :: nat edge_type" ex_graph 5]
  by (simp add: dot_def)

lemma save_edge_eq:
  "save_edge g G e =
     (if length (vertex_data.pvec (vertex_data_of G (source e)))
         \<noteq> length (vertex_data.pvec (vertex_data_of G (target e)))
      then Inl Eigen_Size_Mismatch
      else Inr (source e, if REMAP_TARGET g then - target e - 2 else target e,
                dot (vertex_data.pvec (vertex_data_of G (source e)))
                  (vertex_data.pvec (vertex_data_of G (target e)))))"
  by (simp add: save_edge_def Let_def)

lemma pvec_update_bias:
  "vertex_data.pvec (vertex_data_of (update_vertex G u (\<lambda>d. d\<lparr>vertex_data.bias := b\<rparr>)) v)
     = vertex_data.pvec (vertex_data_of G v)"
  by (simp add: update_vertex_def)

text \<open>
  C9. The prediction that \<^verbatim>\<open>save_edge\<close> writes is the dot product of the two
  \<^verbatim>\<open>pvec\<close>s and nothing else: it does not change with \<open>GLOBAL_MEAN\<close>, with the
  bounds \<open>MINVAL\<close> and \<open>MAXVAL\<close> or with the bias of any vertex, while the residual of
  \<^verbatim>\<open>extract_l2_error\<close> is taken against the clamped sum of global mean, both biases
  and the dot product (as the residual of \<^verbatim>\<open>gather\<close> is, see C1).
\<close>

theorem save_edge_raw_dot:
  "(length (vertex_data.pvec (vertex_data_of G (source e)))
       = length (vertex_data.pvec (vertex_data_of G (target e))) \<longrightarrow>
      save_edge g G e =
        Inr (source e, if REMAP_TARGET g then - target e - 2 else target e,
             dot (vertex_data.pvec (vertex_data_of G (source e)))
               (vertex_data.pvec (vertex_data_of G (target e))))
      \<and> (\<forall>r. extract_l2_error g G e = Inr r \<longrightarrow>
            r = (obs (data e) - max (MINVAL g) (min (MAXVAL g)
                  (GLOBAL_MEAN g + vertex_data.bias (vertex_data_of G (source e))
                   + vertex_data.bias (vertex_data_of G (target e))
                   + dot (vertex_data.pvec (vertex_data_of G (source e)))
                       (vertex_data.pvec (vertex_data_of G (target e))))))\<^sup>2))
   \<and> save_edge (g\<lparr>GLOBAL_MEAN := m, MINVAL := lo, MAXVAL := hi\<rparr>)
        (update_vertex G u (\<lambda>d. d\<lparr>vertex_data.bias := b\<rparr>)) e
      = save_edge g G e"
proof (intro conjI impI allI)
  assume len: "length (vertex_data.pvec (vertex_data_of G (source e)))
       = length (vertex_data.pvec (vertex_data_of G (target e)))"
  show "save_edge g G e =
        Inr (source e, if REMAP_TARGET g then - target e - 2 else target e,
             dot (vertex_data.pvec (vertex_data_of G (source e)))
               (vertex_data.pvec (vertex_data_of G (target e))))"
    using len by (simp add: save_edge_eq)
  fix r
  assume "extract_l2_error g G e = Inr r"
  then show "r = (obs (data e) - max (MINVAL g) (min (MAXVAL g)
                  (GLOBAL_MEAN g + vertex_data.bias (vertex_data_of G (source e))
                   + vertex_data.bias (vertex_data_of G (target e))
                   + dot (vertex_data.pvec (vertex_data_of G (source e)))
                       (vertex_data.pvec (vertex_data_of G (target e))))))\<^sup>2"
    using extract_l2_error_eq [OF len refl, of g] by (simp split: if_splits)
next
  show "save_edge (g\<lparr>GLOBAL_MEAN := m, MINVAL := lo, MAXVAL := hi\<rparr>)
        (update_vertex G u (\<lambda>d. d\<lparr>vertex_data.bias := b\<rparr>)) e
      = save_edge g G e"
    by (simp add: save_edge_eq pvec_update_bias)
qed

theorem save_edge_raw_dot_witness:
  "length (vertex_data.pvec (vertex_data_of ex_graph (source (ex_edge :: 32 word edge_type))))
     = length (vertex_data.pvec (vertex_data_of ex_graph (target (ex_edge :: 32 word edge_type))))
   \<and> save_edge (ex_globals\<lparr>MAXVAL := 6\<rparr>) ex_graph (ex_edge :: 32 word edge_type)
     = Inr (0, 1, 5)
   \<and> save_edge (ex_globals\<lparr>MAXVAL := 6, REMAP_TARGET := True\<rparr>) ex_graph
       (ex_edge :: 32 word edge_type)
     = Inr (0, 0xFFFFFFFD, 5)
   \<and> extract_l2_error (ex_globals\<lparr>MAXVAL := 6\<rparr>) ex_graph (ex_edge :: 32 word edge_type)
     = Inr ((4 - 6)\<^sup>2)"
proof -
  have len: "length (vertex_data.pvec (vertex_data_of ex_graph
        (source (ex_edge :: 32 word edge_type))))
     = length (vertex_data.pvec (vertex_data_of ex_graph (target (ex_edge :: 32 word edge_type))))"
    by simp
  have err: "extract_l2_error (ex_globals\<lparr>MAXVAL := 6\<rparr>) ex_graph (ex_edge :: 32 word edge_type)
     = Inr 4"
    by (simp add: extract_l2_error_def dot_def)
  note saved = save_edge_raw_dot [THEN conjunct1, rule_format, OF len, THEN conjunct1]
  note residual = save_edge_raw_dot [THEN conjunct1, rule_format, OF len, THEN conjunct2,
      rule_format, OF err]
  show ?thesis
    using saved [of "ex_globals\<lparr>MAXVAL := 6\<rparr>"]
      saved [of "ex_globals\<lparr>MAXVAL := 6, REMAP_TARGET := True\<rparr>"] residual err
    by (simp add: dot_def)
qed

subsection \<open>The graph loader\<close>

lemma phrase_parse_fails:
  "((phrase_parse ulong_p float_p line :: ('w :: len word \<times> 'w word \<times> real) option) = None)
   = (case ulong_p (skip line) of
        None \<Rightarrow> True
      | Some (source_id, s1) \<Rightarrow> ulong_p (skip (opt_comma s1)) = None)"
  by (simp add: phrase_parse_def split: option.splits prod.splits)

text \<open>
  C8, as the code has it. An empty line ends the process at \<^verbatim>\<open>ASSERT_FALSE(line.empty())\<close>.
  For a non-empty line on which the grammar fails, \<^verbatim>\<open>graph_loader\<close> returns
  \<^verbatim>\<open>false\<close> and the graph has the edges it had; when the grammar matches, it returns
  \<^verbatim>\<open>true\<close> and adds exactly one edge, with the role of the file name. The grammar asks
  for the two ids only: a line without an observed value matches and its edge has the
  observed value 0.
\<close>

theorem graph_loader_rejects:
  "graph_loader g ulong_p float_p (graph :: 'a :: len edges) filename [] = Inl Assertion_Failed
   \<and> (line \<noteq> [] \<and> (phrase_parse ulong_p float_p line :: ('a word \<times> 'a word \<times> real) option) = None \<longrightarrow>
        graph_loader g ulong_p float_p graph filename line = Inr (False, graph))
   \<and> (line \<noteq> [] \<and> phrase_parse ulong_p float_p line = Some (source_id, target_id, value) \<longrightarrow>
        graph_loader g ulong_p float_p graph filename line =
          Inr (True, graph @
            [(source_id, if REMAP_TARGET g then - (target_id + 2) else target_id,
              \<lparr>obs = value,
               role = (if suffix ''.validate'' filename then VALIDATE
                       else if suffix ''.predict'' filename then PREDICT else TRAIN)\<rparr>)]))
   \<and> (line \<noteq> [] \<and> ulong_p (skip line) = Some (a, s1)
        \<and> ulong_p (skip (opt_comma s1)) = Some (b, s2)
        \<and> float_p (skip (opt_comma s2)) = None \<longrightarrow>
        graph_loader g ulong_p float_p graph filename line =
          Inr (True, graph @
            [(ucast a, if REMAP_TARGET g then - (ucast b + 2) else ucast b,
              \<lparr>obs = 0,
               role = (if suffix ''.validate'' filename then VALIDATE
                       else if suffix ''.predict'' filename then PREDICT else TRAIN)\<rparr>)]))"
proof (intro conjI impI)
  show "graph_loader g ulong_p float_p graph filename [] = Inl Assertion_Failed"
    by (simp add: graph_loader_def)
next
  assume "line \<noteq> [] \<and> (phrase_parse ulong_p float_p line :: ('a word \<times> 'a word \<times> real) option) = None"
  then show "graph_loader g ulong_p float_p graph filename line = Inr (False, graph)"
    by (simp add: graph_loader_def)
next
  assume "line \<noteq> [] \<and> phrase_parse ulong_p float_p line = Some (source_id, target_id, value)"
  then show "graph_loader g ulong_p float_p graph filename line =
          Inr (True, graph @
            [(source_id, if REMAP_TARGET g then - (target_id + 2) else target_id,
              \<lparr>obs = value,
               role = (if suffix ''.validate'' filename then VALIDATE
                       else if suffix ''.predict'' filename then PREDICT else TRAIN)\<rparr>)])"
    by (simp add: graph_loader_def Let_def)
next
  assume ids: "line \<noteq> [] \<and> ulong_p (skip line) = Some (a, s1)
        \<and> ulong_p (skip (opt_comma s1)) = Some (b, s2)
        \<and> float_p (skip (opt_comma s2)) = None"
  then have "phrase_parse ulong_p float_p line
      = Some (ucast a :: 'a word, ucast b :: 'a word, 0)"
    by (simp add: phrase_parse_def)
  with ids show "graph_loader g ulong_p float_p graph filename line =
          Inr (True, graph @
            [(ucast a, if REMAP_TARGET g then - (ucast b + 2) else ucast b,
              \<lparr>obs = 0,
               role = (if suffix ''.validate'' filename then VALIDATE
                       else if suffix ''.predict'' filename then PREDICT else TRAIN)\<rparr>)])"
    by (simp add: graph_loader_def Let_def)
qed

theorem graph_loader_rejects_witness:
  "''x 8 3'' \<noteq> []
   \<and> (phrase_parse ex_ulong ex_float ''x 8 3'' :: (32 word \<times> 32 word \<times> real) option) = None
   \<and> graph_loader ex_globals ex_ulong ex_float ([] :: 32 edges) ''ratings.validate'' ''x 8 3''
     = Inr (False, [])
   \<and> (phrase_parse ex_ulong ex_float ''7 8 3'' :: (32 word \<times> 32 word \<times> real) option)
     = Some (7, 8, 3)
   \<and> graph_loader ex_globals ex_ulong ex_float ([] :: 32 edges) ''ratings.validate'' ''7 8 3''
     = Inr (True, [(7, 8, \<lparr>obs = 3, role = VALIDATE\<rparr>)])
   \<and> ex_ulong (skip ''7, 8'') = Some (7, '', 8'')
   \<and> ex_ulong (skip (opt_comma '', 8'')) = Some (8, [])
   \<and> ex_float (skip (opt_comma [])) = None
   \<and> graph_loader (ex_globals\<lparr>REMAP_TARGET := True\<rparr>) ex_ulong ex_float ([] :: 32 edges)
       ''ratings'' ''7, 8''
     = Inr (True, [(7, 0xFFFFFFF6, \<lparr>obs = 0, role = TRAIN\<rparr>)])"
proof -
  have bad: "''x 8 3'' \<noteq> []
      \<and> (phrase_parse ex_ulong ex_float ''x 8 3'' :: (32 word \<times> 32 word \<times> real) option) = None"
    by (simp add: phrase_parse_def ex_ulong_def ex_float_def skip_def opt_comma_def
        is_space_def is_digit_def)
  have good: "''7 8 3'' \<noteq> []
      \<and> (phrase_parse ex_ulong ex_float ''7 8 3'' :: (32 word \<times> 32 word \<times> real) option)
        = Some (7, 8, 3)"
    by (simp add: phrase_parse_def ex_ulong_def ex_float_def skip_def opt_comma_def
        is_space_def is_digit_def)
  have short: "''7, 8'' \<noteq> [] \<and> ex_ulong (skip ''7, 8'') = Some (7, '', 8'')
      \<and> ex_ulong (skip (opt_comma '', 8'')) = Some (8, [])
      \<and> ex_float (skip (opt_comma [])) = None"
    by (simp add: ex_ulong_def ex_float_def skip_def opt_comma_def is_space_def is_digit_def)
  note loader = graph_loader_rejects [THEN conjunct2]
  from loader [THEN conjunct1, rule_format, OF bad, of ex_globals "[]" "''ratings.validate''"]
    loader [THEN conjunct2, THEN conjunct1, rule_format, OF good, of ex_globals "[]"
      "''ratings.validate''"]
    graph_loader_rejects [where g = "ex_globals\<lparr>REMAP_TARGET := True\<rparr>"
      and graph = "[] :: 32 edges" and filename = "''ratings''" and line = "''7, 8''"
      and ulong_p = ex_ulong and float_p = ex_float and a = 7 and ?s1.0 = "'', 8''"
      and b = 8 and ?s2.0 = "[]", THEN conjunct2, THEN conjunct2, THEN conjunct2]
    bad good short
  show ?thesis by (simp add: suffix_def)
qed

text \<open>The empty line fails to parse, and the loader ends the process on it.\<close>

theorem graph_loader_counterexample:
  "(phrase_parse ex_ulong ex_float [] :: (32 word \<times> 32 word \<times> real) option) = None
   \<and> graph_loader ex_globals ex_ulong ex_float ([] :: 32 edges) ''ratings'' []
     = Inl Assertion_Failed"
  by (simp add: graph_loader_def phrase_parse_def ex_ulong_def skip_def)

subsection \<open>The convergence monitor\<close>

lemma next_even: "((k + 1) mod 2 = 0) = odd k" for k :: int
  by presburger

lemma real_unat_pos:
  fixes w :: "'a :: len word"
  assumes "w \<noteq> 0"
  shows "0 < real (unat w)"
proof -
  from assms have "unat w \<noteq> 0" by (simp add: unsigned_eq_0_iff)
  then have "0 < unat w" by simp
  then show ?thesis by (simp only: of_nat_0_less_iff)
qed

lemma finalize_iter: "iter (snd (snd (finalize cout g agg))) = iter g + 1"
  by (simp add: finalize_def Let_def split: double_result.splits)

lemma finalize_skip:
  "odd (iter g) \<Longrightarrow> finalize cout g agg = (None, cout, g\<lparr>iter := iter g + 1\<rparr>)"
  by (simp add: finalize_def Let_def next_even)

lemma finalize_no_train:
  "even (iter g) \<Longrightarrow> ntrain agg = 0 \<Longrightarrow>
   finalize cout g agg = (Some Assertion_Failed, cout, g\<lparr>iter := iter g + 1\<rparr>)"
  by (simp add: finalize_def Let_def next_even)

lemma finalize_nan:
  assumes "even (iter g)" and "ntrain agg \<noteq> 0" and "train_error agg < 0"
  shows "finalize cout g agg = (Some Assertion_Failed, cout, g\<lparr>iter := iter g + 1\<rparr>)"
proof -
  from assms(2) have "0 < real (unat (ntrain agg))" by (rule real_unat_pos)
  with assms(3) have "train_error agg / real (unat (ntrain agg)) < 0"
    by (rule divide_neg_pos)
  with assms(1,2) show ?thesis
    by (simp add: finalize_def Let_def std_sqrt_def word_gt_0 next_even)
qed

lemma finalize_report:
  assumes "even (iter g)" and "ntrain agg \<noteq> 0" and "0 \<le> train_error agg"
  shows "finalize cout g agg =
     (None, cout @ [report_of agg], g\<lparr>iter := iter g + 1, GAMMA := GAMMA g * STEP_DEC g\<rparr>)"
proof -
  have "0 \<le> real (unat (ntrain agg))" by (simp only: of_nat_0_le_iff)
  with assms(3) have "0 \<le> train_error agg / real (unat (ntrain agg))"
    by (rule divide_nonneg_nonneg)
  then have "\<not> train_error agg / real (unat (ntrain agg)) < 0" by simp
  with assms(1,2) show ?thesis
    by (simp add: finalize_def Let_def std_sqrt_def word_gt_0 report_of_def next_even)
qed

lemma finalize_all_cadence:
  assumes "\<forall>agg \<in> set aggs. ntrain agg \<noteq> 0 \<and> 0 \<le> train_error agg"
  shows "finalize_all cout g aggs =
     (None, cout @ map report_of (alternate (even (iter g)) aggs),
      g\<lparr>iter := iter g + int (length aggs),
        GAMMA := GAMMA g * STEP_DEC g ^ length (alternate (even (iter g)) aggs)\<rparr>)"
  using assms
proof (induction aggs arbitrary: cout g)
  case Nil
  then show ?case by simp
next
  case (Cons agg aggs)
  then have rest: "\<forall>agg \<in> set aggs. ntrain agg \<noteq> 0 \<and> 0 \<le> train_error agg"
    and ok: "ntrain agg \<noteq> 0" "0 \<le> train_error agg" by simp_all
  show ?case
  proof (cases "even (iter g)")
    case True
    from finalize_report [OF True ok, of cout] Cons.IH [OF rest] True
    show ?thesis by (simp add: mult.assoc)
  next
    case False
    from finalize_skip [OF False, of cout agg] Cons.IH [OF rest] False
    show ?thesis by simp
  qed
qed

lemma length_alternate:
  "length (alternate b xs) = (if b then (length xs + 1) div 2 else length xs div 2)"
  by (induction xs arbitrary: b) auto

text \<open>
  C3. \<^verbatim>\<open>finalize\<close> adds one to \<^verbatim>\<open>iter\<close> on every call, also on one that ends the
  process. Counting the calls from 0, so that the number of a call is the value of
  \<^verbatim>\<open>iter\<close> before it, a call with an odd number changes nothing else: it prints
  nothing and \<open>GAMMA\<close> is as before. A call with an even number ends the process when
  there is no training sample (or when the training error is negative, where the square
  root is not a number); otherwise it prints the line with
  \<open>sqrt (train_error / ntrain)\<close>, which is not negative, and with
  \<open>sqrt (validation_error / nvalidation)\<close> when there is a validation sample, and
  multiplies \<open>GAMMA\<close> by \<open>STEP_DEC\<close> once. Over a run of calls from \<^verbatim>\<open>iter = 0\<close> the
  lines printed are those of the aggregates at the positions 0, 2, 4 and so on, and
  \<open>GAMMA\<close> has been multiplied by \<open>STEP_DEC\<close> once for each of them.
\<close>

theorem finalize_every_second_call:
  "(odd (iter g) \<longrightarrow> finalize cout g agg = (None, cout, g\<lparr>iter := iter g + 1\<rparr>))
   \<and> (even (iter g) \<and> ntrain agg = 0 \<longrightarrow>
        finalize cout g agg = (Some Assertion_Failed, cout, g\<lparr>iter := iter g + 1\<rparr>))
   \<and> (even (iter g) \<and> ntrain agg \<noteq> 0 \<and> train_error agg < 0 \<longrightarrow>
        finalize cout g agg = (Some Assertion_Failed, cout, g\<lparr>iter := iter g + 1\<rparr>))
   \<and> (even (iter g) \<and> ntrain agg \<noteq> 0 \<and> 0 \<le> train_error agg \<longrightarrow>
        finalize cout g agg =
          (None,
           cout @ [\<lparr>train_rmse = sqrt (train_error agg / real (unat (ntrain agg))),
                    validation_rmse =
                      (if nvalidation agg = 0 then None
                       else Some (std_sqrt
                         (validation_error agg / real (unat (nvalidation agg)))))\<rparr>],
           g\<lparr>iter := iter g + 1, GAMMA := GAMMA g * STEP_DEC g\<rparr>)
        \<and> 0 \<le> sqrt (train_error agg / real (unat (ntrain agg))))
   \<and> (iter g = 0 \<and> (\<forall>a \<in> set aggs. ntrain a \<noteq> 0 \<and> 0 \<le> train_error a) \<longrightarrow>
        finalize_all cout g aggs =
          (None, cout @ map report_of (alternate True aggs),
           g\<lparr>iter := int (length aggs),
             GAMMA := GAMMA g * STEP_DEC g ^ ((length aggs + 1) div 2)\<rparr>))"
proof (intro conjI impI)
  assume "odd (iter g)"
  then show "finalize cout g agg = (None, cout, g\<lparr>iter := iter g + 1\<rparr>)"
    by (rule finalize_skip)
next
  assume "even (iter g) \<and> ntrain agg = 0"
  then show "finalize cout g agg = (Some Assertion_Failed, cout, g\<lparr>iter := iter g + 1\<rparr>)"
    by (simp add: finalize_no_train)
next
  assume "even (iter g) \<and> ntrain agg \<noteq> 0 \<and> train_error agg < 0"
  then show "finalize cout g agg = (Some Assertion_Failed, cout, g\<lparr>iter := iter g + 1\<rparr>)"
    by (simp add: finalize_nan)
next
  assume ok: "even (iter g) \<and> ntrain agg \<noteq> 0 \<and> 0 \<le> train_error agg"
  then have "finalize cout g agg =
     (None, cout @ [report_of agg], g\<lparr>iter := iter g + 1, GAMMA := GAMMA g * STEP_DEC g\<rparr>)"
    by (simp add: finalize_report)
  then show "finalize cout g agg =
          (None,
           cout @ [\<lparr>train_rmse = sqrt (train_error agg / real (unat (ntrain agg))),
                    validation_rmse =
                      (if nvalidation agg = 0 then None
                       else Some (std_sqrt
                         (validation_error agg / real (unat (nvalidation agg)))))\<rparr>],
           g\<lparr>iter := iter g + 1, GAMMA := GAMMA g * STEP_DEC g\<rparr>)"
    by (simp only: report_of_def)
  have "0 \<le> real (unat (ntrain agg))" by (simp only: of_nat_0_le_iff)
  with ok have "0 \<le> train_error agg / real (unat (ntrain agg))"
    by (simp only: divide_nonneg_nonneg)
  then show "0 \<le> sqrt (train_error agg / real (unat (ntrain agg)))"
    by (simp only: real_sqrt_ge_0_iff)
next
  assume run: "iter g = 0 \<and> (\<forall>a \<in> set aggs. ntrain a \<noteq> 0 \<and> 0 \<le> train_error a)"
  then have "\<forall>a \<in> set aggs. ntrain a \<noteq> 0 \<and> 0 \<le> train_error a" by simp
  from finalize_all_cadence [OF this, of cout g] run
  show "finalize_all cout g aggs =
          (None, cout @ map report_of (alternate True aggs),
           g\<lparr>iter := int (length aggs),
             GAMMA := GAMMA g * STEP_DEC g ^ ((length aggs + 1) div 2)\<rparr>)"
    by (simp add: length_alternate)
qed

theorem finalize_every_second_call_witness:
  "even (iter ex_globals) \<and> ntrain ex_agg \<noteq> 0 \<and> 0 \<le> train_error ex_agg
   \<and> finalize [] ex_globals ex_agg
     = (None, [\<lparr>train_rmse = 2, validation_rmse = Some (Number 2)\<rparr>],
        ex_globals\<lparr>iter := 1, GAMMA := 9 / 100\<rparr>)
   \<and> odd (iter (ex_globals\<lparr>iter := 1, GAMMA := 9 / 100\<rparr>))
   \<and> finalize [\<lparr>train_rmse = 2, validation_rmse = Some (Number 2)\<rparr>]
        (ex_globals\<lparr>iter := 1, GAMMA := 9 / 100\<rparr>) ex_agg
     = (None, [\<lparr>train_rmse = 2, validation_rmse = Some (Number 2)\<rparr>],
        ex_globals\<lparr>iter := 2, GAMMA := 9 / 100\<rparr>)
   \<and> finalize [] ex_globals (ex_agg\<lparr>ntrain := 0\<rparr>)
     = (Some Assertion_Failed, [], ex_globals\<lparr>iter := 1\<rparr>)
   \<and> finalize_all [] ex_globals [ex_agg, ex_agg, ex_agg]
     = (None, [\<lparr>train_rmse = 2, validation_rmse = Some (Number 2)\<rparr>,
               \<lparr>train_rmse = 2, validation_rmse = Some (Number 2)\<rparr>],
        ex_globals\<lparr>iter := 3, GAMMA := 81 / 1000\<rparr>)"
proof -
  have four: "(8 :: real) / real (unat (2 :: 64 word)) = 4"
    "(4 :: real) / real (unat (1 :: 64 word)) = 4" by simp_all
  have div: "(length [ex_agg, ex_agg, ex_agg] + 1) div 2 = 2" by simp
  have valid: "iter ex_globals = 0
      \<and> (\<forall>a \<in> set [ex_agg, ex_agg, ex_agg]. ntrain a \<noteq> 0 \<and> 0 \<le> train_error a)"
    by simp
  note first = finalize_every_second_call [of ex_globals "[]" ex_agg,
      THEN conjunct2, THEN conjunct2, THEN conjunct2, THEN conjunct1]
  note second = finalize_every_second_call
      [of "ex_globals\<lparr>iter := 1, GAMMA := 9 / 100\<rparr>"
        "[\<lparr>train_rmse = 2, validation_rmse = Some (Number 2)\<rparr>]" ex_agg, THEN conjunct1]
  note fatal = finalize_every_second_call [of ex_globals "[]" "ex_agg\<lparr>ntrain := 0\<rparr>",
      THEN conjunct2, THEN conjunct1]
  note run = finalize_every_second_call [of ex_globals "[]" _ "[ex_agg, ex_agg, ex_agg]",
      THEN conjunct2, THEN conjunct2, THEN conjunct2, THEN conjunct2, rule_format, OF valid]
  show ?thesis
    using first second fatal run
    by (simp add: std_sqrt_def report_of_def power2_eq_square)
qed

subsection \<open>Signals\<close>

subsection \<open>Signals\<close>






subsection \<open>The step of gather\<close>






subsection \<open>The accumulator\<close>














end
